theory Spec2Isabelle
  imports Complex_Main "HOL-Library.AList"
begin

section \<open>Python values used by the swarm\<close>

text \<open>
  Python floats are idealised as the real numbers: every theorem below is about the
  arithmetic the code writes down, without IEEE rounding.  Python dictionaries keep
  insertion order and overwrite in place, which is what an association list with
  \<open>AList.update\<close> does; \<open>sum(d.values())\<close> is \<open>sum_list\<close> over the second components.
  A raised exception is a value of type \<open>error\<close>.
\<close>

datatype error = ValueError | KeyError | ZeroDivisionError | TypeError

type_synonym ('k, 'v) dict = "('k \<times> 'v) list"

definition dict_contains :: "('k, 'v) dict \<Rightarrow> 'k \<Rightarrow> bool" where
  "dict_contains d k = (map_of d k \<noteq> None)"

definition dict_get :: "('k, 'v) dict \<Rightarrow> 'k \<Rightarrow> error + 'v" where
  "dict_get d k = (case map_of d k of None \<Rightarrow> Inl KeyError | Some v \<Rightarrow> Inr v)"

definition dict_set :: "('k, 'v) dict \<Rightarrow> 'k \<Rightarrow> 'v \<Rightarrow> ('k, 'v) dict" where
  "dict_set d k v = AList.update k v d"

definition dict_del :: "('k, 'v) dict \<Rightarrow> 'k \<Rightarrow> ('k, 'v) dict" where
  "dict_del d k = AList.delete k d"

definition dict_values :: "('k, 'v) dict \<Rightarrow> 'v list" where
  "dict_values d = map snd d"

text \<open>\<open>str.lower()\<close> on ASCII text (the vote and action words are ASCII).\<close>

definition lower_char :: "char \<Rightarrow> char" where
  "lower_char c =
     (case map_of (zip ''ABCDEFGHIJKLMNOPQRSTUVWXYZ'' ''abcdefghijklmnopqrstuvwxyz'') c of
        None \<Rightarrow> c
      | Some l \<Rightarrow> l)"

definition lower :: "string \<Rightarrow> string" where
  "lower s = map lower_char s"


section \<open>governance/coalition.py\<close>

datatype VotingMethod =
    SIMPLE_MAJORITY
  | SUPERMAJORITY
  | UNANIMOUS
  | QUADRATIC
  | REPUTATION_WEIGHTED

record GovernanceProposal =
  id' :: int
  title :: string
  description :: string
  proposer :: string
  proposal_type :: string
  voting_method :: VotingMethod
  votes_for :: "(string, real) dict"
  votes_against :: "(string, real) dict"
  votes_abstain :: "(string, real) dict"
  required_threshold :: real
  deadline :: int
  executed :: bool

text \<open>
  \<open>members\<close> is a Python set; it is kept as a duplicate-free list whose order stands for
  the set's iteration order.
\<close>

record GovernanceCoalition =
  name :: string
  members :: "string list"
  coalition_voting_method :: VotingMethod
  proposals :: "(int, GovernanceProposal) dict"
  reputation :: "(string, real) dict"

definition set_add :: "string list \<Rightarrow> string \<Rightarrow> string list" where
  "set_add s x = (if x \<in> set s then s else s @ [x])"

definition init_coalition :: "string \<Rightarrow> string list \<Rightarrow> VotingMethod \<Rightarrow> GovernanceCoalition" where
  "init_coalition nm ms method =
     \<lparr> name = nm,
       members = fold (\<lambda>m s. set_add s m) ms [],
       coalition_voting_method = method,
       proposals = [],
       reputation = fold (\<lambda>m d. dict_set d m 100) ms [] \<rparr>"

definition add_member :: "GovernanceCoalition \<Rightarrow> string \<Rightarrow> real \<Rightarrow> GovernanceCoalition" where
  "add_member c agent_id initial_reputation =
     (if agent_id \<notin> set (members c)
      then c\<lparr> members := set_add (members c) agent_id,
              reputation := dict_set (reputation c) agent_id initial_reputation \<rparr>
      else c)"

text \<open>
  \<open>del self.reputation[agent_id]\<close> raises KeyError when the key is missing; the member has
  already been removed from the set by then.
\<close>

definition remove_member :: "GovernanceCoalition \<Rightarrow> string \<Rightarrow> error option \<times> GovernanceCoalition" where
  "remove_member c agent_id =
     (if agent_id \<in> set (members c)
      then (let c1 = c\<lparr> members := removeAll agent_id (members c) \<rparr>
            in if dict_contains (reputation c1) agent_id
               then (None, c1\<lparr> reputation := dict_del (reputation c1) agent_id \<rparr>)
               else (Some KeyError, c1))
      else (None, c))"

text \<open>
  \<open>voting_method or self.voting_method\<close>: an enum member is truthy, so only \<open>None\<close> falls
  back to the coalition's method.
\<close>

definition create_proposal ::
  "GovernanceCoalition \<Rightarrow> string \<Rightarrow> string \<Rightarrow> string \<Rightarrow> string \<Rightarrow> VotingMethod option \<Rightarrow> real \<Rightarrow> int
     \<Rightarrow> error + (GovernanceProposal \<times> GovernanceCoalition)" where
  "create_proposal c prop ttl descr ptype method threshold dl =
     (if prop \<notin> set (members c) then Inl ValueError
      else
        (let proposal_id = int (length (proposals c));
             proposal = \<lparr> id' = proposal_id,
                          title = ttl,
                          description = descr,
                          proposer = prop,
                          proposal_type = ptype,
                          voting_method = (case method of None \<Rightarrow> coalition_voting_method c | Some m \<Rightarrow> m),
                          votes_for = [],
                          votes_against = [],
                          votes_abstain = [],
                          required_threshold = threshold,
                          deadline = dl,
                          executed = False \<rparr>
         in Inr (proposal, c\<lparr> proposals := dict_set (proposals c) proposal_id proposal \<rparr>)))"

text \<open>
  The quadratic weight is \<open>reputation ** 0.5\<close>.  For a negative base Python returns a complex
  number rather than a float; the model reports that case as \<open>TypeError\<close>, since the value
  leaves the declared weight type.
\<close>

definition calculate_vote_weight :: "GovernanceCoalition \<Rightarrow> string \<Rightarrow> VotingMethod \<Rightarrow> error + real" where
  "calculate_vote_weight c voter method =
     (case method of
        SIMPLE_MAJORITY \<Rightarrow> Inr 1
      | SUPERMAJORITY \<Rightarrow> Inr 1
      | UNANIMOUS \<Rightarrow> Inr 1
      | REPUTATION_WEIGHTED \<Rightarrow>
          (let total_reputation = sum_list (dict_values (reputation c))
           in case dict_get (reputation c) voter of
                Inl e \<Rightarrow> Inl e
              | Inr r \<Rightarrow>
                  if total_reputation = 0 then Inl ZeroDivisionError
                  else Inr (r / total_reputation * real (length (members c))))
      | QUADRATIC \<Rightarrow>
          (case dict_get (reputation c) voter of
             Inl e \<Rightarrow> Inl e
           | Inr r \<Rightarrow> if r < 0 then Inl TypeError else Inr (sqrt r)))"

text \<open>
  Every exception of \<open>vote\<close> is raised before the proposal is touched, so an error leaves the
  coalition as it was.  The three ledgers are written independently: the branch taken stores
  the weight under the voter's key in one ledger and does not look at the other two, and the
  \<open>executed\<close> flag is not consulted.
\<close>

definition record_ballot :: "GovernanceProposal \<Rightarrow> string \<Rightarrow> string \<Rightarrow> real \<Rightarrow> GovernanceProposal" where
  "record_ballot p voter v w =
     (if lower v = ''approve'' then p\<lparr> votes_for := dict_set (votes_for p) voter w \<rparr>
      else if lower v = ''reject'' then p\<lparr> votes_against := dict_set (votes_against p) voter w \<rparr>
      else p\<lparr> votes_abstain := dict_set (votes_abstain p) voter w \<rparr>)"

definition vote ::
  "GovernanceCoalition \<Rightarrow> int \<Rightarrow> string \<Rightarrow> string \<Rightarrow> real option \<Rightarrow> error + GovernanceCoalition" where
  "vote c proposal_id voter v vote_weight =
     (case map_of (proposals c) proposal_id of
        None \<Rightarrow> Inl ValueError
      | Some proposal \<Rightarrow>
          if voter \<notin> set (members c) then Inl ValueError
          else
            (case (case vote_weight of
                     None \<Rightarrow> calculate_vote_weight c voter (voting_method proposal)
                   | Some w \<Rightarrow> Inr w) of
               Inl e \<Rightarrow> Inl e
             | Inr w \<Rightarrow>
                 Inr (c\<lparr> proposals :=
                          dict_set (proposals c) proposal_id (record_ballot proposal voter v w) \<rparr>)))"

record Tally =
  tally_proposal_id :: int
  total_for :: real
  total_against :: real
  approval_rate :: real
  tally_required_threshold :: real
  passed :: bool
  tally_voting_method :: VotingMethod

definition tally_proposal :: "int \<Rightarrow> GovernanceProposal \<Rightarrow> Tally" where
  "tally_proposal proposal_id proposal =
     (let tf = sum_list (dict_values (votes_for proposal));
          ta = sum_list (dict_values (votes_against proposal));
          total_votes = tf + ta;
          rate = (if total_votes = 0 then 0 else tf / total_votes)
      in \<lparr> tally_proposal_id = proposal_id,
           total_for = tf,
           total_against = ta,
           approval_rate = rate,
           tally_required_threshold = required_threshold proposal,
           passed = (rate \<ge> required_threshold proposal),
           tally_voting_method = voting_method proposal \<rparr>)"

definition tally_votes :: "GovernanceCoalition \<Rightarrow> int \<Rightarrow> error + Tally" where
  "tally_votes c proposal_id =
     (case map_of (proposals c) proposal_id of
        None \<Rightarrow> Inl ValueError
      | Some proposal \<Rightarrow> Inr (tally_proposal proposal_id proposal))"

text \<open>
  \<open>_update_reputation\<close> walks the members.  \<open>self.reputation[voter] += x\<close> reads the entry
  first and raises KeyError when it is missing; the loop stops there with the entries
  written so far, so the result carries the state next to the error.
\<close>

definition reputation_delta :: "GovernanceProposal \<Rightarrow> bool \<Rightarrow> string \<Rightarrow> real option" where
  "reputation_delta proposal outcome voter =
     (if dict_contains (votes_for proposal) voter \<and> outcome then Some 1
      else if dict_contains (votes_against proposal) voter \<and> \<not> outcome then Some 1
      else if dict_contains (votes_for proposal) voter \<and> \<not> outcome then Some (- 0.5)
      else if dict_contains (votes_against proposal) voter \<and> outcome then Some (- 0.5)
      else None)"

fun update_reputation_loop ::
  "GovernanceProposal \<Rightarrow> bool \<Rightarrow> string list \<Rightarrow> (string, real) dict
     \<Rightarrow> error option \<times> (string, real) dict" where
  "update_reputation_loop proposal outcome [] rep = (None, rep)"
| "update_reputation_loop proposal outcome (voter # rest) rep =
     (case reputation_delta proposal outcome voter of
        None \<Rightarrow> update_reputation_loop proposal outcome rest rep
      | Some d \<Rightarrow>
          (case dict_get rep voter of
             Inl e \<Rightarrow> (Some e, rep)
           | Inr r \<Rightarrow> update_reputation_loop proposal outcome rest (dict_set rep voter (r + d))))"

definition update_reputation ::
  "GovernanceCoalition \<Rightarrow> int \<Rightarrow> bool \<Rightarrow> error option \<times> GovernanceCoalition" where
  "update_reputation c proposal_id outcome =
     (case map_of (proposals c) proposal_id of
        None \<Rightarrow> (Some KeyError, c)
      | Some proposal \<Rightarrow>
          (case update_reputation_loop proposal outcome (members c) (reputation c) of
             (e, rep) \<Rightarrow> (e, c\<lparr> reputation := rep \<rparr>)))"

definition execute_proposal ::
  "GovernanceCoalition \<Rightarrow> int \<Rightarrow> (error + bool) \<times> GovernanceCoalition" where
  "execute_proposal c proposal_id =
     (case tally_votes c proposal_id of
        Inl e \<Rightarrow> (Inl e, c)
      | Inr tally \<Rightarrow>
          if \<not> passed tally then (Inr False, c)
          else
            (case map_of (proposals c) proposal_id of
               None \<Rightarrow> (Inl KeyError, c)
             | Some proposal \<Rightarrow>
                 if executed proposal then (Inr False, c)
                 else
                   (let c1 = c\<lparr> proposals :=
                                  dict_set (proposals c) proposal_id (proposal\<lparr> executed := True \<rparr>) \<rparr>
                    in case update_reputation c1 proposal_id (passed tally) of
                         (Some e, c2) \<Rightarrow> (Inl e, c2)
                       | (None, c2) \<Rightarrow> (Inr True, c2))))"

text \<open>
  The voting sequence of \<open>demo_governance\<close>: five agents, a supermajority proposal with
  threshold 0.667, the ballots cast in order with computed weights, then the tally.
\<close>

fun cast_votes ::
  "GovernanceCoalition \<Rightarrow> int \<Rightarrow> (string \<times> string) list \<Rightarrow> error + GovernanceCoalition" where
  "cast_votes c proposal_id [] = Inr c"
| "cast_votes c proposal_id ((voter, v) # rest) =
     (case vote c proposal_id voter v None of
        Inl e \<Rightarrow> Inl e
      | Inr c' \<Rightarrow> cast_votes c' proposal_id rest)"

definition demo_coalition :: GovernanceCoalition where
  "demo_coalition =
     init_coalition ''DeFi Strategy Council''
       [''Agent-A'', ''Agent-B'', ''Agent-C'', ''Agent-D'', ''Agent-E''] REPUTATION_WEIGHTED"

definition demo_governance :: "(string \<times> string) list \<Rightarrow> error + Tally" where
  "demo_governance ballots =
     (case create_proposal demo_coalition ''Agent-A'' ''Increase position size limits''
             ''Raise max position from 100 SOL to 200 SOL'' ''parameter_change''
             (Some SUPERMAJORITY) 0.667 86400 of
        Inl e \<Rightarrow> Inl e
      | Inr (proposal, c) \<Rightarrow>
          (case cast_votes c (id' proposal) ballots of
             Inl e \<Rightarrow> Inl e
           | Inr c' \<Rightarrow> tally_votes c' (id' proposal)))"


text \<open>
  The same run continued as the demo does: members listed in \<open>leavers\<close> leave the coalition
  after the ballots are in, then the proposal is executed.
\<close>

definition demo_execute ::
  "(string \<times> string) list \<Rightarrow> string list \<Rightarrow> (error + bool) \<times> GovernanceCoalition" where
  "demo_execute ballots leavers =
     (case create_proposal demo_coalition ''Agent-A'' ''Increase position size limits''
             ''Raise max position from 100 SOL to 200 SOL'' ''parameter_change''
             (Some SUPERMAJORITY) 0.667 86400 of
        Inl e \<Rightarrow> (Inl e, demo_coalition)
      | Inr (proposal, c) \<Rightarrow>
          (case cast_votes c (id' proposal) ballots of
             Inl e \<Rightarrow> (Inl e, c)
           | Inr c' \<Rightarrow>
               execute_proposal (fold (\<lambda>m s. snd (remove_member s m)) leavers c') (id' proposal)))"

definition four_one :: "(string \<times> string) list" where
  "four_one = [(''Agent-A'', ''approve''), (''Agent-B'', ''approve''), (''Agent-C'', ''reject''),
               (''Agent-D'', ''approve''), (''Agent-E'', ''approve'')]"

definition three_two :: "(string \<times> string) list" where
  "three_two = [(''Agent-A'', ''approve''), (''Agent-B'', ''approve''), (''Agent-C'', ''reject''),
                (''Agent-D'', ''approve''), (''Agent-E'', ''reject'')]"

text \<open>A proposal with explicitly weighted ballots, as \<open>vote(..., vote_weight=w)\<close> stores them.\<close>

definition open_proposal :: GovernanceProposal where
  "open_proposal =
     \<lparr> id' = 0, title = ''Lower fee'', description = ''Lower the swap fee'',
       proposer = ''Agent-A'', proposal_type = ''parameter_change'', voting_method = QUADRATIC,
       votes_for = [(''Agent-A'', 10), (''Agent-B'', 5)],
       votes_against = [(''Agent-C'', 5)],
       votes_abstain = [(''Agent-D'', 7)],
       required_threshold = 0.667, deadline = 86400, executed = False \<rparr>"

definition open_coalition :: GovernanceCoalition where
  "open_coalition = demo_coalition\<lparr> proposals := [(0, open_proposal)] \<rparr>"

section \<open>sdk/python/agent\_swarm\_sdk/proposal.py\<close>

record Proposal =
  sdk_id :: int
  sdk_proposer :: string
  sdk_proposal_type :: string
  sdk_description :: string
  votes :: "(string, string) dict"
  sdk_executed :: bool

definition record_vote :: "Proposal \<Rightarrow> string \<Rightarrow> string \<Rightarrow> Proposal" where
  "record_vote p voter v = p\<lparr> votes := dict_set (votes p) voter v \<rparr>"

definition count_votes :: "Proposal \<Rightarrow> string \<Rightarrow> nat" where
  "count_votes p choice = length (filter (\<lambda>v. v = choice) (dict_values (votes p)))"

definition get_status :: "Proposal \<Rightarrow> string" where
  "get_status p =
     (if sdk_executed p then ''executed''
      else if votes p = [] then ''pending''
      else
        (let approve_count = count_votes p ''approve'';
             reject_count = count_votes p ''reject''
         in if approve_count > reject_count then ''approved''
            else if reject_count > approve_count then ''rejected''
            else ''tied''))"


section \<open>agents/consensus\_agent.py\<close>






section \<open>agents/enhanced\_learning\_agent.py\<close>

text \<open>
  The Q-table maps a state (market condition, proposal type, risk level) to a dictionary
  from action word to value.  The SQLite persistence is left out: it copies the row that
  was just written and does not feed back into the table.  The two random draws of
  \<open>predict_vote\<close> are parameters: \<open>rnd\<close> is the value of \<open>np.random.random()\<close>, in
  \<open>[0, 1)\<close>, and \<open>pick\<close> the index chosen by \<open>np.random.choice\<close>.
\<close>

type_synonym q_state = "string \<times> string \<times> string"

record EnhancedLearningAgent =
  learning_rate :: real
  discount_factor :: real
  exploration_rate :: real
  q_table :: "(q_state, (string, real) dict) dict"

definition init_agent :: EnhancedLearningAgent where
  "init_agent = \<lparr> learning_rate = 0.1, discount_factor = 0.95, exploration_rate = 0.2, q_table = [] \<rparr>"

definition zero_q :: "(string, real) dict" where
  "zero_q = [(''approve'', 0), (''reject'', 0), (''abstain'', 0)]"

definition lazy_init :: "(q_state, (string, real) dict) dict \<Rightarrow> q_state \<Rightarrow> (q_state, (string, real) dict) dict" where
  "lazy_init qt state = (if \<not> dict_contains qt state then dict_set qt state zero_q else qt)"

text \<open>\<open>max(xs)\<close> raises ValueError on an empty sequence.\<close>

definition max_values :: "real list \<Rightarrow> error + real" where
  "max_values xs = (case xs of [] \<Rightarrow> Inl ValueError | x # rest \<Rightarrow> Inr (fold max rest x))"

text \<open>
  The lazy initialisation has happened when \<open>action.lower()\<close> is looked up, so an unknown
  action word raises KeyError with the zero row already stored.
\<close>

definition update_q_value ::
  "EnhancedLearningAgent \<Rightarrow> q_state \<Rightarrow> string \<Rightarrow> real \<Rightarrow> error option \<times> EnhancedLearningAgent" where
  "update_q_value a state action reward =
     (let qt = lazy_init (q_table a) state;
          a1 = a\<lparr> q_table := qt \<rparr>
      in case dict_get qt state of
           Inl e \<Rightarrow> (Some e, a1)
         | Inr row \<Rightarrow>
             (case dict_get row (lower action) of
                Inl e \<Rightarrow> (Some e, a1)
              | Inr current_q \<Rightarrow>
                  (case max_values (dict_values row) of
                     Inl e \<Rightarrow> (Some e, a1)
                   | Inr max_future_q \<Rightarrow>
                       (let new_q = current_q + learning_rate a *
                                      (reward + discount_factor a * max_future_q - current_q)
                        in (None, a1\<lparr> q_table := dict_set qt state (dict_set row (lower action) new_q) \<rparr>)))))"

text \<open>\<open>max(d, key=d.get)\<close>: the first key, in dictionary order, whose value is maximal.\<close>

fun argmax_first :: "(string \<times> real) list \<Rightarrow> string \<times> real \<Rightarrow> string \<times> real" where
  "argmax_first [] best = best"
| "argmax_first (kv # rest) best = argmax_first rest (if snd kv > snd best then kv else best)"

definition max_key :: "(string, real) dict \<Rightarrow> error + string" where
  "max_key d = (case d of [] \<Rightarrow> Inl ValueError | kv # rest \<Rightarrow> Inr (fst (argmax_first rest kv)))"

definition predict_vote ::
  "EnhancedLearningAgent \<Rightarrow> string \<Rightarrow> string \<Rightarrow> string \<Rightarrow> real \<Rightarrow> nat
     \<Rightarrow> (error + string \<times> real) \<times> EnhancedLearningAgent" where
  "predict_vote a ptype market_condition risk_level rnd pick =
     (let state = (market_condition, ptype, risk_level)
      in if rnd < exploration_rate a
         then (Inr ([''approve'', ''reject'', ''abstain''] ! (pick mod 3), 0.33), a)
         else
           (let qt = lazy_init (q_table a) state;
                a1 = a\<lparr> q_table := qt \<rparr>
            in case dict_get qt state of
                 Inl e \<Rightarrow> (Inl e, a1)
               | Inr q_values \<Rightarrow>
                   (case max_key q_values of
                      Inl e \<Rightarrow> (Inl e, a1)
                    | Inr action \<Rightarrow>
                        (case dict_get q_values action of
                           Inl e \<Rightarrow> (Inl e, a1)
                         | Inr max_q \<Rightarrow>
                             (let avg_q = sum_list (dict_values q_values) / real (length q_values);
                                  confidence = min 1 ((max_q - avg_q + 1) / 2)
                              in (Inr (action, confidence), a1))))))"

text \<open>\<open>update(state, action, reward)\<close> repeated \<open>n\<close> times, stopping at the first exception.\<close>

fun repeat_update ::
  "nat \<Rightarrow> EnhancedLearningAgent \<Rightarrow> q_state \<Rightarrow> string \<Rightarrow> real \<Rightarrow> error option \<times> EnhancedLearningAgent" where
  "repeat_update 0 a state action reward = (None, a)"
| "repeat_update (Suc n) a state action reward =
     (case update_q_value a state action reward of
        (Some e, a') \<Rightarrow> (Some e, a')
      | (None, a') \<Rightarrow> repeat_update n a' state action reward)"


text \<open>The row of a state in which only \<open>approve\<close> has been rewarded.\<close>

definition approve_row :: "real \<Rightarrow> (string, real) dict" where
  "approve_row q = [(''approve'', q), (''reject'', 0), (''abstain'', 0)]"

section \<open>Evaluation of the demo run\<close>

lemmas demo_simps =
  demo_governance_def demo_coalition_def init_coalition_def set_add_def dict_set_def
  create_proposal_def vote_def calculate_vote_weight_def record_ballot_def lower_def
  lower_char_def tally_votes_def tally_proposal_def dict_values_def Let_def

lemmas exec_simps =
  demo_execute_def execute_proposal_def update_reputation_def reputation_delta_def
  dict_contains_def dict_get_def remove_member_def dict_del_def

lemma demo_execute_four_one:
  "demo_execute four_one [] =
    (Inr True,
     \<lparr>name = ''DeFi Strategy Council'',
        members = [''Agent-A'', ''Agent-B'', ''Agent-C'', ''Agent-D'', ''Agent-E''],
        coalition_voting_method = REPUTATION_WEIGHTED,
        proposals =
          [(0, \<lparr>id' = 0, title = ''Increase position size limits'',
                  description = ''Raise max position from 100 SOL to 200 SOL'',
                  proposer = ''Agent-A'', proposal_type = ''parameter_change'',
                  voting_method = SUPERMAJORITY,
                  votes_for = [(''Agent-A'', 1), (''Agent-B'', 1), (''Agent-D'', 1), (''Agent-E'', 1)],
                  votes_against = [(''Agent-C'', 1)], votes_abstain = [],
                  required_threshold = 0.667, deadline = 86400, executed = True\<rparr>)],
        reputation = [(''Agent-A'', 101), (''Agent-B'', 101), (''Agent-C'', 99.5),
                      (''Agent-D'', 101), (''Agent-E'', 101)]\<rparr>)"
  by (simp add: demo_simps exec_simps four_one_def)


section \<open>Tally and pass decision\<close>

text \<open>
  C1. For every proposal in the registry, whatever its voting method, \<open>tally_votes\<close> returns
  a tally whose totals are the sums of the weights stored in the approve and reject ledgers,
  and \<open>passed\<close> compares approve / (approve + reject) with the required threshold (the rate
  is 0 when that denominator is 0).  The abstain ledger and the voting method do not enter
  the decision.  In the demo run with threshold 0.667 and five voters of weight 1, four
  approvals against one rejection pass at rate 0.8, three against two fail at rate 0.6.
\<close>

theorem tally_votes_weighted_ratio:
  assumes "map_of (proposals c) proposal_id = Some p"
  shows "(\<exists>t. tally_votes c proposal_id = Inr t
           \<and> total_for t = sum_list (dict_values (votes_for p))
           \<and> total_against t = sum_list (dict_values (votes_against p))
           \<and> passed t =
               ((if total_for t + total_against t = 0 then 0
                 else total_for t / (total_for t + total_against t)) \<ge> required_threshold p)
           \<and> (\<forall>a m. passed (tally_proposal proposal_id (p\<lparr>votes_abstain := a, voting_method := m\<rparr>))
                      = passed t))
         \<and> map_sum id (\<lambda>t. (total_for t, total_against t, approval_rate t, passed t))
             (demo_governance four_one) = Inr (4, 1, 0.8, True)
         \<and> map_sum id (\<lambda>t. (total_for t, total_against t, approval_rate t, passed t))
             (demo_governance three_two) = Inr (3, 2, 0.6, False)"
proof (intro conjI)
  show "\<exists>t. tally_votes c proposal_id = Inr t
           \<and> total_for t = sum_list (dict_values (votes_for p))
           \<and> total_against t = sum_list (dict_values (votes_against p))
           \<and> passed t =
               ((if total_for t + total_against t = 0 then 0
                 else total_for t / (total_for t + total_against t)) \<ge> required_threshold p)
           \<and> (\<forall>a m. passed (tally_proposal proposal_id (p\<lparr>votes_abstain := a, voting_method := m\<rparr>))
                      = passed t)"
    using assms by (simp add: tally_votes_def tally_proposal_def Let_def)
  show "map_sum id (\<lambda>t. (total_for t, total_against t, approval_rate t, passed t))
           (demo_governance four_one) = Inr (4, 1, 0.8, True)"
    by (simp add: demo_simps four_one_def)
  show "map_sum id (\<lambda>t. (total_for t, total_against t, approval_rate t, passed t))
           (demo_governance three_two) = Inr (3, 2, 0.6, False)"
    by (simp add: demo_simps three_two_def)
qed

theorem tally_votes_weighted_ratio_witness:
  "map_of (proposals open_coalition) 0 = Some open_proposal
   \<and> (\<exists>t. tally_votes open_coalition 0 = Inr t \<and> total_for t = 15 \<and> total_against t = 5
          \<and> passed t = ((15 / (15 + 5) :: real) \<ge> 0.667) \<and> passed t)"
proof -
  have h: "map_of (proposals open_coalition) 0 = Some open_proposal"
    by (simp add: open_coalition_def)
  from tally_votes_weighted_ratio [OF h] obtain t where
    t: "tally_votes open_coalition 0 = Inr t"
       "total_for t = sum_list (dict_values (votes_for open_proposal))"
       "total_against t = sum_list (dict_values (votes_against open_proposal))"
       "passed t =
          ((if total_for t + total_against t = 0 then 0
            else total_for t / (total_for t + total_against t)) \<ge> required_threshold open_proposal)"
    by blast
  have tf: "total_for t = 15" using t(2) by (simp add: open_proposal_def dict_values_def)
  have ta: "total_against t = 5" using t(3) by (simp add: open_proposal_def dict_values_def)
  have "passed t" using t(4) tf ta by (simp add: open_proposal_def)
  with h t(1) tf ta show ?thesis by simp
qed


section \<open>Execution happens once\<close>

lemma execute_proposal_executed:
  assumes "map_of (proposals c) proposal_id = Some p" and "executed p"
  shows "execute_proposal c proposal_id = (Inr False, c)"
  using assms by (simp add: execute_proposal_def tally_votes_def)

lemma update_reputation_proposals:
  "proposals (snd (update_reputation c proposal_id outcome)) = proposals c"
  by (simp add: update_reputation_def split: option.splits prod.splits)

lemma execute_proposal_again:
  assumes "map_of (proposals c) proposal_id \<noteq> None"
  shows "execute_proposal (snd (execute_proposal c proposal_id)) proposal_id
           = (Inr False, snd (execute_proposal c proposal_id))"
proof -
  from assms obtain p where p: "map_of (proposals c) proposal_id = Some p" by auto
  show ?thesis
  proof (cases "passed (tally_proposal proposal_id p)")
    case False
    then show ?thesis using p by (simp add: execute_proposal_def tally_votes_def)
  next
    case pass: True
    show ?thesis
    proof (cases "executed p")
      case True
      then show ?thesis using p by (simp add: execute_proposal_def tally_votes_def)
    next
      case False
      let ?p1 = "p\<lparr>executed := True\<rparr>"
      let ?c1 = "c\<lparr>proposals := dict_set (proposals c) proposal_id ?p1\<rparr>"
      let ?c2 = "snd (update_reputation ?c1 proposal_id True)"
      have first: "snd (execute_proposal c proposal_id) = ?c2"
        using p pass False
        by (simp add: execute_proposal_def tally_votes_def Let_def split: prod.splits option.splits)
      have "proposals ?c2 = proposals ?c1" by (rule update_reputation_proposals)
      then have look: "map_of (proposals ?c2) proposal_id = Some ?p1"
        by (simp add: dict_set_def update_conv')
      have "executed ?p1" by simp
      from execute_proposal_executed [OF look this] first show ?thesis by simp
    qed
  qed
qed

text \<open>
  C4. Executing a proposal whose \<open>executed\<close> flag is set returns \<open>False\<close> and hands back the
  coalition as it was, reputations included; and whatever a first \<open>execute_proposal\<close> call
  on a registered proposal did, a second call on the state it left returns \<open>False\<close> and
  changes nothing.  So the reputation deltas of a resolution are applied at most once.
\<close>

theorem execute_proposal_applies_once:
  "(map_of (proposals c) proposal_id = Some p \<and> executed p
      \<longrightarrow> execute_proposal c proposal_id = (Inr False, c))
   \<and> (map_of (proposals c) proposal_id \<noteq> None
      \<longrightarrow> execute_proposal (snd (execute_proposal c proposal_id)) proposal_id
            = (Inr False, snd (execute_proposal c proposal_id)))"
  using execute_proposal_executed execute_proposal_again by blast

theorem execute_proposal_applies_once_witness:
  "map_option executed (map_of (proposals (snd (demo_execute four_one []))) 0) = Some True
   \<and> execute_proposal (snd (demo_execute four_one [])) 0 = (Inr False, snd (demo_execute four_one []))
   \<and> reputation (snd (execute_proposal (snd (demo_execute four_one [])) 0))
       = [(''Agent-A'', 101), (''Agent-B'', 101), (''Agent-C'', 99.5), (''Agent-D'', 101), (''Agent-E'', 101)]"
proof -
  let ?c = "snd (demo_execute four_one [])"
  obtain p where p: "map_of (proposals ?c) 0 = Some p" and e: "executed p"
    by (simp add: demo_execute_four_one)
  from execute_proposal_applies_once [of ?c 0 p] p e
  have again: "execute_proposal ?c 0 = (Inr False, ?c)" by blast
  have "reputation ?c
          = [(''Agent-A'', 101), (''Agent-B'', 101), (''Agent-C'', 99.5), (''Agent-D'', 101), (''Agent-E'', 101)]"
    by (simp add: demo_execute_four_one)
  with again p e show ?thesis by simp
qed


section \<open>One ballot per agent\<close>

text \<open>
  The SDK's \<open>Proposal.record_vote\<close> keeps one entry per voter: a later vote replaces the
  earlier one.
\<close>

lemma record_vote_upsert:
  "map_of (votes (record_vote p voter v)) = (map_of (votes p))(voter \<mapsto> v)"
  "distinct (map fst (votes p)) \<Longrightarrow> distinct (map fst (votes (record_vote p voter v)))"
  by (simp_all add: record_vote_def dict_set_def update_conv' distinct_update)

text \<open>
  C2. \<open>GovernanceCoalition.vote\<close> does not do the same across ledgers.  In the demo
  coalition Agent-A approves and then rejects: the tally counts weight 1 for and weight 1
  against, so the earlier approval still contributes; had Agent-A only rejected, the
  approve total would be 0.
\<close>

theorem vote_again_counts_both_ballots:
  "demo_governance [(''Agent-A'', ''approve''), (''Agent-A'', ''reject'')]
     = Inr \<lparr> tally_proposal_id = 0, total_for = 1, total_against = 1, approval_rate = 0.5,
             tally_required_threshold = 0.667, passed = False, tally_voting_method = SUPERMAJORITY \<rparr>
   \<and> demo_governance [(''Agent-A'', ''reject'')]
     = Inr \<lparr> tally_proposal_id = 0, total_for = 0, total_against = 1, approval_rate = 0,
             tally_required_threshold = 0.667, passed = False, tally_voting_method = SUPERMAJORITY \<rparr>"
  by (simp add: demo_simps)


section \<open>Voting on an executed proposal\<close>

text \<open>
  After the demo proposal has been executed, Agent-A votes to reject: the call succeeds and
  the reject ledger of the executed proposal gains an entry.  No error is raised and the
  proposal is changed.
\<close>

theorem vote_on_executed_counterexample:
  "map_option executed (map_of (proposals (snd (demo_execute four_one []))) 0) = Some True
   \<and> map_option votes_against (map_of (proposals (snd (demo_execute four_one []))) 0)
       = Some [(''Agent-C'', 1)]
   \<and> vote (snd (demo_execute four_one [])) 0 ''Agent-A'' ''reject'' None =
       Inr \<lparr>name = ''DeFi Strategy Council'',
           members = [''Agent-A'', ''Agent-B'', ''Agent-C'', ''Agent-D'', ''Agent-E''],
           coalition_voting_method = REPUTATION_WEIGHTED,
           proposals =
             [(0, \<lparr>id' = 0, title = ''Increase position size limits'',
                     description = ''Raise max position from 100 SOL to 200 SOL'',
                     proposer = ''Agent-A'', proposal_type = ''parameter_change'',
                     voting_method = SUPERMAJORITY,
                     votes_for = [(''Agent-A'', 1), (''Agent-B'', 1), (''Agent-D'', 1), (''Agent-E'', 1)],
                     votes_against = [(''Agent-C'', 1), (''Agent-A'', 1)], votes_abstain = [],
                     required_threshold = 0.667, deadline = 86400, executed = True\<rparr>)],
           reputation = [(''Agent-A'', 101), (''Agent-B'', 101), (''Agent-C'', 99.5),
                         (''Agent-D'', 101), (''Agent-E'', 101)]\<rparr>"
  by (simp add: demo_execute_four_one vote_def calculate_vote_weight_def record_ballot_def
       lower_def lower_char_def dict_set_def)

text \<open>
  C3, amended.  \<open>vote\<close> does not look at the \<open>executed\<close> flag.  For a registered proposal,
  executed or not, a member's vote whose weight is given or can be computed succeeds; it
  stores the weight under the voter's key in the ledger of the chosen side and leaves the
  \<open>executed\<close> flag, the members and every reputation as they were.  The SDK's
  \<open>record_vote\<close> likewise stores the vote whatever the flag says.
\<close>

theorem vote_ignores_executed:
  assumes "map_of (proposals c) proposal_id = Some p"
    and "voter \<in> set (members c)"
    and "(case vote_weight of
            None \<Rightarrow> calculate_vote_weight c voter (voting_method p)
          | Some x \<Rightarrow> Inr x) = Inr w"
  shows "(\<exists>c' p'. vote c proposal_id voter v vote_weight = Inr c'
           \<and> map_of (proposals c') proposal_id = Some p'
           \<and> executed p' = executed p
           \<and> reputation c' = reputation c
           \<and> members c' = members c
           \<and> map_of (if lower v = ''approve'' then votes_for p'
                      else if lower v = ''reject'' then votes_against p'
                      else votes_abstain p') voter = Some w)
         \<and> sdk_executed (record_vote q voter v) = sdk_executed q
         \<and> map_of (votes (record_vote q voter v)) voter = Some v"
  using assms
  by (simp add: vote_def record_ballot_def dict_set_def update_conv' record_vote_def)

theorem vote_ignores_executed_witness:
  "(\<exists>p. map_of (proposals (snd (demo_execute four_one []))) 0 = Some p \<and> executed p)
   \<and> ''Agent-A'' \<in> set (members (snd (demo_execute four_one [])))
   \<and> (\<exists>c' p'. vote (snd (demo_execute four_one [])) 0 ''Agent-A'' ''reject'' None = Inr c'
         \<and> map_of (proposals c') 0 = Some p'
         \<and> executed p'
         \<and> map_of (votes_against p') ''Agent-A'' = Some 1)"
proof -
  let ?c = "snd (demo_execute four_one [])"
  obtain p where p: "map_of (proposals ?c) 0 = Some p" and e: "executed p"
    and m: "voting_method p = SUPERMAJORITY"
    by (simp add: demo_execute_four_one)
  have mem: "''Agent-A'' \<in> set (members ?c)"
    by (simp add: demo_execute_four_one)
  have w: "(case None of
              None \<Rightarrow> calculate_vote_weight ?c ''Agent-A'' (voting_method p)
            | Some x \<Rightarrow> Inr x) = Inr 1"
    by (simp add: m calculate_vote_weight_def)
  have low: "lower ''reject'' = ''reject''"
    by (simp add: lower_def lower_char_def)
  from vote_ignores_executed [OF p mem w, of "''reject''"] obtain c' p' where
    "vote ?c 0 ''Agent-A'' ''reject'' None = Inr c'"
    "map_of (proposals c') 0 = Some p'"
    "executed p' = executed p"
    "map_of (if lower ''reject'' = ''approve'' then votes_for p'
             else if lower ''reject'' = ''reject'' then votes_against p'
             else votes_abstain p') ''Agent-A'' = Some 1"
    by blast
  then have "\<exists>c' p'. vote ?c 0 ''Agent-A'' ''reject'' None = Inr c'
         \<and> map_of (proposals c') 0 = Some p'
         \<and> executed p'
         \<and> map_of (votes_against p') ''Agent-A'' = Some 1"
    using e by (simp add: low)
  with p e mem show ?thesis by blast
qed


section \<open>Reputation-weighted votes\<close>

lemma map_of_value_le_sum:
  fixes d :: "('k \<times> real) list"
  assumes "\<forall>x \<in> set (map snd d). 0 \<le> x" and "map_of d k = Some r"
  shows "r \<le> sum_list (map snd d)"
proof -
  from assms(2) have "(k, r) \<in> set d" by (rule map_of_SomeD)
  then have "r \<in> set (map snd d)" by force
  then show ?thesis using assms(1) member_le_sum_list by blast
qed

lemma reputation_weight_formula:
  assumes "calculate_vote_weight c voter REPUTATION_WEIGHTED = Inr w"
  shows "\<exists>r. map_of (reputation c) voter = Some r
            \<and> w = r / sum_list (dict_values (reputation c)) * real (length (members c))"
  using assms
  by (auto simp add: calculate_vote_weight_def dict_get_def Let_def split: option.splits if_splits)

lemma reputation_weight_defined:
  assumes "map_of (reputation c) voter = Some r"
    and "sum_list (dict_values (reputation c)) \<noteq> 0"
  shows "calculate_vote_weight c voter REPUTATION_WEIGHTED
           = Inr (r / sum_list (dict_values (reputation c)) * real (length (members c)))"
  using assms by (simp add: calculate_vote_weight_def dict_get_def Let_def)

lemma reputation_weight_three_equal:
  assumes "reputation c = [(a1, r), (a2, r), (a3, r)]" and "length (members c) = 3"
    and "r \<noteq> 0" and "voter \<in> {a1, a2, a3}"
  shows "calculate_vote_weight c voter REPUTATION_WEIGHTED = Inr 1"
  using assms by (auto simp add: calculate_vote_weight_def dict_get_def Let_def dict_values_def)

lemma reputation_weight_bound:
  assumes "\<forall>x \<in> set (dict_values (reputation c)). 0 \<le> x"
    and "calculate_vote_weight c voter REPUTATION_WEIGHTED = Inr w"
  shows "0 \<le> w \<and> w \<le> real (length (members c))"
proof -
  let ?T = "sum_list (dict_values (reputation c))"
  from assms(2) obtain r where r: "map_of (reputation c) voter = Some r"
    and w: "w = r / ?T * real (length (members c))" and T0: "?T \<noteq> 0"
    by (auto simp add: calculate_vote_weight_def dict_get_def Let_def split: option.splits if_splits)
  have rT: "r \<le> ?T" using map_of_value_le_sum [OF _ r] assms(1) by (simp add: dict_values_def)
  have r0: "0 \<le> r" using map_of_SomeD [OF r] assms(1) by (force simp: dict_values_def)
  have Tpos: "0 < ?T" using r0 rT T0 by linarith
  have a: "0 \<le> r / ?T" using r0 Tpos by simp
  have b: "r / ?T \<le> 1" using rT Tpos by simp
  have n: "0 \<le> real (length (members c))" by simp
  have "0 \<le> r / ?T * real (length (members c))"
    by (rule mult_nonneg_nonneg [OF a n])
  moreover have "r / ?T * real (length (members c)) \<le> real (length (members c))"
    by (rule mult_left_le_one_le [OF n a b])
  ultimately show ?thesis unfolding w by blast
qed

text \<open>
  A member added with a negative initial reputation: the other member's weight is 4 in a
  coalition of 2.
\<close>

theorem reputation_weight_exceeds_count_counterexample:
  "calculate_vote_weight (add_member (init_coalition ''c'' [''A''] REPUTATION_WEIGHTED) ''B'' (- 50))
     ''A'' REPUTATION_WEIGHTED = Inr 4
   \<and> length (members (add_member (init_coalition ''c'' [''A''] REPUTATION_WEIGHTED) ''B'' (- 50))) = 2"
  by (simp add: calculate_vote_weight_def add_member_def init_coalition_def set_add_def dict_set_def
        dict_values_def dict_get_def)

text \<open>
  C5, amended.  Under the reputation-weighted method a weight that is returned equals
  reputation[voter] / sum of all reputations * number of members, and it is returned
  whenever the voter has a reputation and the sum is not zero.  Three members of equal,
  non-zero reputation each get weight exactly 1.  When no reputation is negative, a weight
  lies between 0 and the number of members.
\<close>

theorem reputation_weight_normalised:
  "(calculate_vote_weight c voter REPUTATION_WEIGHTED = Inr w
      \<longrightarrow> (\<exists>r. map_of (reputation c) voter = Some r
               \<and> w = r / sum_list (dict_values (reputation c)) * real (length (members c))))
   \<and> (map_of (reputation c) voter = Some r \<and> sum_list (dict_values (reputation c)) \<noteq> 0
      \<longrightarrow> calculate_vote_weight c voter REPUTATION_WEIGHTED
            = Inr (r / sum_list (dict_values (reputation c)) * real (length (members c))))
   \<and> (reputation c = [(a1, r), (a2, r), (a3, r)] \<and> length (members c) = 3 \<and> r \<noteq> 0
        \<and> voter \<in> {a1, a2, a3}
      \<longrightarrow> calculate_vote_weight c voter REPUTATION_WEIGHTED = Inr 1)
   \<and> ((\<forall>x \<in> set (dict_values (reputation c)). 0 \<le> x)
        \<and> calculate_vote_weight c voter REPUTATION_WEIGHTED = Inr w
      \<longrightarrow> 0 \<le> w \<and> w \<le> real (length (members c)))"
  using reputation_weight_formula [of c voter w] reputation_weight_defined [of c voter r]
    reputation_weight_three_equal [of c a1 r a2 a3 voter] reputation_weight_bound [of c voter w]
  by blast

theorem reputation_weight_normalised_witness:
  "reputation (init_coalition ''c'' [''A'', ''B'', ''C''] REPUTATION_WEIGHTED)
     = [(''A'', 100), (''B'', 100), (''C'', 100)]
   \<and> length (members (init_coalition ''c'' [''A'', ''B'', ''C''] REPUTATION_WEIGHTED)) = 3
   \<and> (100 :: real) \<noteq> 0
   \<and> ''B'' \<in> {''A'', ''B'', ''C''}
   \<and> map_of (reputation (init_coalition ''c'' [''A'', ''B'', ''C''] REPUTATION_WEIGHTED)) ''B'' = Some 100
   \<and> sum_list (dict_values (reputation (init_coalition ''c'' [''A'', ''B'', ''C''] REPUTATION_WEIGHTED))) \<noteq> 0
   \<and> dict_values (reputation (init_coalition ''c'' [''A'', ''B'', ''C''] REPUTATION_WEIGHTED))
       = [100, 100, 100]
   \<and> calculate_vote_weight (init_coalition ''c'' [''A'', ''B'', ''C''] REPUTATION_WEIGHTED) ''B''
        REPUTATION_WEIGHTED = Inr 1
   \<and> (1 :: real) \<le> real (length (members (init_coalition ''c'' [''A'', ''B'', ''C''] REPUTATION_WEIGHTED)))"
proof -
  let ?c = "init_coalition ''c'' [''A'', ''B'', ''C''] REPUTATION_WEIGHTED"
  have rep: "reputation ?c = [(''A'', 100), (''B'', 100), (''C'', 100)]"
    by (simp add: init_coalition_def dict_set_def)
  have len: "length (members ?c) = 3"
    by (simp add: init_coalition_def set_add_def)
  have nonneg: "\<forall>x \<in> set (dict_values (reputation ?c)). 0 \<le> x"
    by (simp add: rep dict_values_def)
  have total: "sum_list (dict_values (reputation ?c)) \<noteq> 0"
    by (simp add: rep dict_values_def)
  have look: "map_of (reputation ?c) ''B'' = Some 100"
    by (simp add: rep)
  note inst = reputation_weight_normalised [of ?c "''B''" 1 100 "''A''" "''B''" "''C''"]
  have one: "calculate_vote_weight ?c ''B'' REPUTATION_WEIGHTED = Inr 1"
    using inst rep len by simp
  have "(1 :: real) \<le> real (length (members ?c))"
    using inst nonneg one by blast
  have vals: "dict_values (reputation ?c) = [100, 100, 100]"
    by (simp add: rep dict_values_def)
  with rep len look total one show ?thesis by simp
qed


section \<open>Conflict detection\<close>







section \<open>Reputation after a resolution\<close>

text \<open>
  The loop over the members, when every member has a reputation entry: no exception, the
  keys are kept, and each member's entry moves by the delta of the first branch that
  applies to it.
\<close>

lemma update_reputation_loop_result:
  assumes "distinct ms" and "\<forall>m \<in> set ms. map_of rep m \<noteq> None"
  shows "\<exists>rep'. update_reputation_loop p outcome ms rep = (None, rep')
           \<and> map fst rep' = map fst rep
           \<and> (\<forall>a. map_of rep' a =
                  (if a \<in> set ms
                   then (case reputation_delta p outcome a of
                           None \<Rightarrow> map_of rep a
                         | Some d \<Rightarrow> map_option (\<lambda>r. r + d) (map_of rep a))
                   else map_of rep a))"
  using assms
proof (induction ms arbitrary: rep)
  case Nil
  then show ?case by simp
next
  case (Cons voter rest)
  have dist: "distinct rest" and notin: "voter \<notin> set rest" using Cons.prems(1) by simp_all
  show ?case
  proof (cases "reputation_delta p outcome voter")
    case None
    from Cons.IH [OF dist, of rep] Cons.prems(2) obtain rep' where
      r: "update_reputation_loop p outcome rest rep = (None, rep')"
         "map fst rep' = map fst rep"
         "\<forall>a. map_of rep' a =
                  (if a \<in> set rest
                   then (case reputation_delta p outcome a of
                           None \<Rightarrow> map_of rep a
                         | Some d \<Rightarrow> map_option (\<lambda>r. r + d) (map_of rep a))
                   else map_of rep a)"
      by auto
    show ?thesis
      using None r notin by (intro exI [of _ rep']) auto
  next
    case (Some d)
    from Cons.prems(2) obtain r0 where r0: "map_of rep voter = Some r0" by auto
    let ?rep1 = "dict_set rep voter (r0 + d)"
    have dom1: "\<forall>m \<in> set rest. map_of ?rep1 m \<noteq> None"
      using Cons.prems(2) by (simp add: dict_set_def update_conv')
    from Cons.IH [OF dist dom1] obtain rep' where
      r: "update_reputation_loop p outcome rest ?rep1 = (None, rep')"
         "map fst rep' = map fst ?rep1"
         "\<forall>a. map_of rep' a =
                  (if a \<in> set rest
                   then (case reputation_delta p outcome a of
                           None \<Rightarrow> map_of ?rep1 a
                         | Some d \<Rightarrow> map_option (\<lambda>r. r + d) (map_of ?rep1 a))
                   else map_of ?rep1 a)"
      by auto
    have keys: "map fst ?rep1 = map fst rep"
      using r0 by (simp add: dict_set_def update_keys map_of_eq_None_iff [symmetric] del: map_of_eq_None_iff)
    have other: "\<And>a. a \<noteq> voter \<Longrightarrow> map_of ?rep1 a = map_of rep a"
      by (simp add: dict_set_def update_conv')
    have self: "map_of ?rep1 voter = Some (r0 + d)"
      by (simp add: dict_set_def update_conv')
    have step: "update_reputation_loop p outcome (voter # rest) rep = (None, rep')"
      using Some r0 r(1) by (simp add: dict_get_def)
    have "\<forall>a. map_of rep' a =
                  (if a \<in> set (voter # rest)
                   then (case reputation_delta p outcome a of
                           None \<Rightarrow> map_of rep a
                         | Some d \<Rightarrow> map_option (\<lambda>r. r + d) (map_of rep a))
                   else map_of rep a)"
    proof
      fix a
      show "map_of rep' a =
                  (if a \<in> set (voter # rest)
                   then (case reputation_delta p outcome a of
                           None \<Rightarrow> map_of rep a
                         | Some d \<Rightarrow> map_option (\<lambda>r. r + d) (map_of rep a))
                   else map_of rep a)"
      proof (cases "a = voter")
        case True
        then show ?thesis using r(3) notin self Some r0 by (simp split: option.splits)
      next
        case False
        then show ?thesis using r(3) other [OF False] by (simp split: option.splits)
      qed
    qed
    with step r(2) keys show ?thesis by auto
  qed
qed


lemma reputation_delta_executed:
  "reputation_delta (p\<lparr>executed := b\<rparr>) outcome a = reputation_delta p outcome a"
  by (simp add: reputation_delta_def)

lemma update_reputation_loop_executed:
  "update_reputation_loop (p\<lparr>executed := b\<rparr>) outcome ms rep = update_reputation_loop p outcome ms rep"
  by (induction ms arbitrary: rep) (simp_all add: reputation_delta_executed split: option.splits sum.splits)

lemma update_reputation_result:
  assumes p: "map_of (proposals c) proposal_id = Some p"
    and dist: "distinct (members c)"
    and dom: "\<forall>m \<in> set (members c). map_of (reputation c) m \<noteq> None"
  shows "\<exists>c'. update_reputation c proposal_id outcome = (None, c')
           \<and> proposals c' = proposals c \<and> members c' = members c
           \<and> (\<forall>a. map_of (reputation c') a =
                  (if a \<in> set (members c)
                   then (case reputation_delta p outcome a of
                           None \<Rightarrow> map_of (reputation c) a
                         | Some d \<Rightarrow> map_option (\<lambda>r. r + d) (map_of (reputation c) a))
                   else map_of (reputation c) a))"
proof -
  from update_reputation_loop_result [OF dist dom, of p outcome] obtain rep' where
    r: "update_reputation_loop p outcome (members c) (reputation c) = (None, rep')"
       "\<forall>a. map_of rep' a =
                  (if a \<in> set (members c)
                   then (case reputation_delta p outcome a of
                           None \<Rightarrow> map_of (reputation c) a
                         | Some d \<Rightarrow> map_option (\<lambda>r. r + d) (map_of (reputation c) a))
                   else map_of (reputation c) a)"
    by blast
  have "update_reputation c proposal_id outcome = (None, c\<lparr>reputation := rep'\<rparr>)"
    using p r(1) by (simp add: update_reputation_def)
  then show ?thesis using r(2) by simp
qed

text \<open>
  Two runs of the demo.  Agent-B approves and leaves the coalition before the proposal is
  executed: its approval is still in the ledger and counted, the proposal passes, and
  Agent-B has no reputation entry afterwards.  With three approvals against two rejections
  the proposal does not pass: \<open>execute_proposal\<close> returns \<open>False\<close>, the proposal stays
  unexecuted and nobody's reputation moves, the rejecting agents' included.
\<close>

theorem update_reputation_counterexample:
  "fst (demo_execute four_one [''Agent-B'']) = Inr True
   \<and> map_option votes_for (map_of (proposals (snd (demo_execute four_one [''Agent-B'']))) 0)
       = Some [(''Agent-A'', 1), (''Agent-B'', 1), (''Agent-D'', 1), (''Agent-E'', 1)]
   \<and> reputation (snd (demo_execute four_one [''Agent-B'']))
       = [(''Agent-A'', 101), (''Agent-C'', 99.5), (''Agent-D'', 101), (''Agent-E'', 101)]
   \<and> demo_execute three_two [] =
       (Inr False,
        \<lparr>name = ''DeFi Strategy Council'',
           members = [''Agent-A'', ''Agent-B'', ''Agent-C'', ''Agent-D'', ''Agent-E''],
           coalition_voting_method = REPUTATION_WEIGHTED,
           proposals =
             [(0, \<lparr>id' = 0, title = ''Increase position size limits'',
                     description = ''Raise max position from 100 SOL to 200 SOL'',
                     proposer = ''Agent-A'', proposal_type = ''parameter_change'',
                     voting_method = SUPERMAJORITY,
                     votes_for = [(''Agent-A'', 1), (''Agent-B'', 1), (''Agent-D'', 1)],
                     votes_against = [(''Agent-C'', 1), (''Agent-E'', 1)], votes_abstain = [],
                     required_threshold = 0.667, deadline = 86400, executed = False\<rparr>)],
           reputation = [(''Agent-A'', 100), (''Agent-B'', 100), (''Agent-C'', 100),
                         (''Agent-D'', 100), (''Agent-E'', 100)]\<rparr>)"
  by (simp add: demo_simps exec_simps four_one_def three_two_def)

text \<open>
  C6, amended.  In a coalition whose members each have a reputation entry,
  \<open>_update_reputation\<close> with an outcome raises nothing and: every current member whose
  ballot is in the winning side's ledger and not in the losing side's gains exactly 1.0;
  every current member whose ballot is in the losing side's ledger and not in the winning
  side's loses exactly 0.5; every agent that is in neither the approve nor the reject
  ledger (it abstained or did not vote), or is not a member, keeps what it had.
  \<open>execute_proposal\<close> applies this with outcome approved when the tally passes and the
  proposal was not executed before; when the tally does not pass it changes nothing.
\<close>

theorem update_reputation_by_side:
  assumes p: "map_of (proposals c) proposal_id = Some p"
    and dist: "distinct (members c)"
    and dom: "\<forall>m \<in> set (members c). map_of (reputation c) m \<noteq> None"
  shows "(\<exists>c'. update_reputation c proposal_id outcome = (None, c')
           \<and> (\<forall>a r. a \<in> set (members c) \<and> map_of (reputation c) a = Some r
                  \<and> dict_contains (if outcome then votes_for p else votes_against p) a
                  \<and> \<not> dict_contains (if outcome then votes_against p else votes_for p) a
                \<longrightarrow> map_of (reputation c') a = Some (r + 1))
           \<and> (\<forall>a r. a \<in> set (members c) \<and> map_of (reputation c) a = Some r
                  \<and> dict_contains (if outcome then votes_against p else votes_for p) a
                  \<and> \<not> dict_contains (if outcome then votes_for p else votes_against p) a
                \<longrightarrow> map_of (reputation c') a = Some (r - 0.5))
           \<and> (\<forall>a. a \<notin> set (members c)
                  \<or> (\<not> dict_contains (votes_for p) a \<and> \<not> dict_contains (votes_against p) a)
                \<longrightarrow> map_of (reputation c') a = map_of (reputation c) a))
         \<and> (\<not> passed (tally_proposal proposal_id p)
              \<longrightarrow> execute_proposal c proposal_id = (Inr False, c))
         \<and> (passed (tally_proposal proposal_id p) \<and> \<not> executed p
              \<longrightarrow> (\<exists>c''. execute_proposal c proposal_id = (Inr True, c'')
                     \<and> reputation c'' = reputation (snd (update_reputation c proposal_id True))))"
proof (intro conjI impI)
  from update_reputation_result [OF p dist dom, of outcome] obtain c' where
    u: "update_reputation c proposal_id outcome = (None, c')"
    and r: "\<And>a. map_of (reputation c') a =
                  (if a \<in> set (members c)
                   then (case reputation_delta p outcome a of
                           None \<Rightarrow> map_of (reputation c) a
                         | Some d \<Rightarrow> map_option (\<lambda>r. r + d) (map_of (reputation c) a))
                   else map_of (reputation c) a)"
    by blast
  show "\<exists>c'. update_reputation c proposal_id outcome = (None, c')
           \<and> (\<forall>a r. a \<in> set (members c) \<and> map_of (reputation c) a = Some r
                  \<and> dict_contains (if outcome then votes_for p else votes_against p) a
                  \<and> \<not> dict_contains (if outcome then votes_against p else votes_for p) a
                \<longrightarrow> map_of (reputation c') a = Some (r + 1))
           \<and> (\<forall>a r. a \<in> set (members c) \<and> map_of (reputation c) a = Some r
                  \<and> dict_contains (if outcome then votes_against p else votes_for p) a
                  \<and> \<not> dict_contains (if outcome then votes_for p else votes_against p) a
                \<longrightarrow> map_of (reputation c') a = Some (r - 0.5))
           \<and> (\<forall>a. a \<notin> set (members c)
                  \<or> (\<not> dict_contains (votes_for p) a \<and> \<not> dict_contains (votes_against p) a)
                \<longrightarrow> map_of (reputation c') a = map_of (reputation c) a)"
  proof (intro exI [of _ c'] conjI allI impI)
    show "update_reputation c proposal_id outcome = (None, c')" by (rule u)
  next
    fix a r
    assume "a \<in> set (members c) \<and> map_of (reputation c) a = Some r
                  \<and> dict_contains (if outcome then votes_for p else votes_against p) a
                  \<and> \<not> dict_contains (if outcome then votes_against p else votes_for p) a"
    then show "map_of (reputation c') a = Some (r + 1)"
      by (cases outcome) (simp_all add: r reputation_delta_def)
  next
    fix a r
    assume "a \<in> set (members c) \<and> map_of (reputation c) a = Some r
                  \<and> dict_contains (if outcome then votes_against p else votes_for p) a
                  \<and> \<not> dict_contains (if outcome then votes_for p else votes_against p) a"
    then show "map_of (reputation c') a = Some (r - 0.5)"
      by (cases outcome) (simp_all add: r reputation_delta_def)
  next
    fix a
    assume "a \<notin> set (members c)
                  \<or> (\<not> dict_contains (votes_for p) a \<and> \<not> dict_contains (votes_against p) a)"
    then show "map_of (reputation c') a = map_of (reputation c) a"
      by (auto simp add: r reputation_delta_def)
  qed
next
  assume "\<not> passed (tally_proposal proposal_id p)"
  then show "execute_proposal c proposal_id = (Inr False, c)"
    using p by (simp add: execute_proposal_def tally_votes_def)
next
  assume a: "passed (tally_proposal proposal_id p) \<and> \<not> executed p"
  let ?p1 = "p\<lparr>executed := True\<rparr>"
  let ?c1 = "c\<lparr>proposals := dict_set (proposals c) proposal_id ?p1\<rparr>"
  have look: "map_of (proposals ?c1) proposal_id = Some ?p1"
    by (simp add: dict_set_def update_conv')
  from update_reputation_loop_result [OF dist dom, of p True] obtain rep' where
    l: "update_reputation_loop p True (members c) (reputation c) = (None, rep')" by blast
  have u1: "update_reputation ?c1 proposal_id True = (None, ?c1\<lparr>reputation := rep'\<rparr>)"
    using look l by (simp add: update_reputation_def update_reputation_loop_executed)
  have u0: "update_reputation c proposal_id True = (None, c\<lparr>reputation := rep'\<rparr>)"
    using p l by (simp add: update_reputation_def)
  have "execute_proposal c proposal_id = (Inr True, ?c1\<lparr>reputation := rep'\<rparr>)"
    using p a u1 by (simp add: execute_proposal_def tally_votes_def Let_def)
  then show "\<exists>c''. execute_proposal c proposal_id = (Inr True, c'')
                     \<and> reputation c'' = reputation (snd (update_reputation c proposal_id True))"
    using u0 by simp
qed

theorem update_reputation_by_side_witness:
  "map_of (proposals open_coalition) 0 = Some open_proposal
   \<and> members open_coalition = [''Agent-A'', ''Agent-B'', ''Agent-C'', ''Agent-D'', ''Agent-E'']
   \<and> reputation open_coalition = [(''Agent-A'', 100), (''Agent-B'', 100), (''Agent-C'', 100),
                                     (''Agent-D'', 100), (''Agent-E'', 100)]
   \<and> passed (tally_proposal 0 open_proposal) \<and> \<not> executed open_proposal
   \<and> (\<exists>c'. update_reputation open_coalition 0 True = (None, c')
         \<and> map_of (reputation c') ''Agent-A'' = Some 101
         \<and> map_of (reputation c') ''Agent-C'' = Some 99.5
         \<and> map_of (reputation c') ''Agent-D'' = Some 100)
   \<and> (\<exists>c''. execute_proposal open_coalition 0 = (Inr True, c'')
         \<and> reputation c'' = reputation (snd (update_reputation open_coalition 0 True)))"
proof -
  let ?c = "open_coalition"
  have mem: "members ?c = [''Agent-A'', ''Agent-B'', ''Agent-C'', ''Agent-D'', ''Agent-E'']"
    by (simp add: open_coalition_def demo_coalition_def init_coalition_def set_add_def)
  have rep: "reputation ?c = [(''Agent-A'', 100), (''Agent-B'', 100), (''Agent-C'', 100),
                              (''Agent-D'', 100), (''Agent-E'', 100)]"
    by (simp add: open_coalition_def demo_coalition_def init_coalition_def dict_set_def)
  have h1: "map_of (proposals ?c) 0 = Some open_proposal"
    by (simp add: open_coalition_def)
  have h2: "distinct (members ?c)" by (simp add: mem)
  have h3: "\<forall>m \<in> set (members ?c). map_of (reputation ?c) m \<noteq> None"
    by (simp add: mem rep)
  have h4: "passed (tally_proposal 0 open_proposal) \<and> \<not> executed open_proposal"
    by (simp add: tally_proposal_def open_proposal_def dict_values_def)
  note inst = update_reputation_by_side [OF h1 h2 h3, of True]
  from inst obtain c' where
    u: "update_reputation ?c 0 True = (None, c')"
    and win: "\<forall>a r. a \<in> set (members ?c) \<and> map_of (reputation ?c) a = Some r
                  \<and> dict_contains (if True then votes_for open_proposal else votes_against open_proposal) a
                  \<and> \<not> dict_contains (if True then votes_against open_proposal else votes_for open_proposal) a
                \<longrightarrow> map_of (reputation c') a = Some (r + 1)"
    and lose: "\<forall>a r. a \<in> set (members ?c) \<and> map_of (reputation ?c) a = Some r
                  \<and> dict_contains (if True then votes_against open_proposal else votes_for open_proposal) a
                  \<and> \<not> dict_contains (if True then votes_for open_proposal else votes_against open_proposal) a
                \<longrightarrow> map_of (reputation c') a = Some (r - 0.5)"
    and keep: "\<forall>a. a \<notin> set (members ?c)
                  \<or> (\<not> dict_contains (votes_for open_proposal) a
                      \<and> \<not> dict_contains (votes_against open_proposal) a)
                \<longrightarrow> map_of (reputation c') a = map_of (reputation ?c) a"
    by blast
  have a: "map_of (reputation c') ''Agent-A'' = Some 101"
    using win [rule_format, of "''Agent-A''" 100]
    by (simp add: mem rep open_proposal_def dict_contains_def)
  have c: "map_of (reputation c') ''Agent-C'' = Some 99.5"
    using lose [rule_format, of "''Agent-C''" 100]
    by (simp add: mem rep open_proposal_def dict_contains_def)
  have d: "map_of (reputation c') ''Agent-D'' = Some 100"
    using keep [rule_format, of "''Agent-D''"]
    by (simp add: mem rep open_proposal_def dict_contains_def)
  from inst h4 have e: "\<exists>c''. execute_proposal ?c 0 = (Inr True, c'')
         \<and> reputation c'' = reputation (snd (update_reputation ?c 0 True))"
    by blast
  from h1 mem rep h4 u a c d e show ?thesis by blast
qed


section \<open>The Q-learning update\<close>

lemma lazy_init_lookup:
  "map_of (lazy_init qt state) state
     = Some (case map_of qt state of None \<Rightarrow> zero_q | Some row \<Rightarrow> row)"
  by (auto simp add: lazy_init_def dict_contains_def dict_set_def update_conv')

lemma lazy_init_other:
  "s \<noteq> state \<Longrightarrow> map_of (lazy_init qt state) s = map_of qt s"
  by (simp add: lazy_init_def dict_set_def update_conv')

lemma max_values_Max:
  "xs \<noteq> [] \<Longrightarrow> max_values xs = Inr (Max (set xs))"
  by (cases xs) (simp_all add: max_values_def Max.set_eq_fold [symmetric])

lemma update_q_value_step:
  assumes row: "row = (case map_of (q_table a) state of None \<Rightarrow> zero_q | Some r \<Rightarrow> r)"
    and q: "map_of row (lower action) = Some q"
  shows "\<exists>a' row'. update_q_value a state action reward = (None, a')
           \<and> map_of (q_table a') state = Some row'
           \<and> row' = dict_set row (lower action)
                      (q + learning_rate a * (reward + discount_factor a * Max (set (dict_values row)) - q))
           \<and> (\<forall>s. s \<noteq> state \<longrightarrow> map_of (q_table a') s = map_of (q_table a) s)
           \<and> learning_rate a' = learning_rate a
           \<and> discount_factor a' = discount_factor a
           \<and> exploration_rate a' = exploration_rate a"
proof -
  let ?qt = "lazy_init (q_table a) state"
  have look: "dict_get ?qt state = Inr row"
    by (simp add: dict_get_def lazy_init_lookup row)
  have cur: "dict_get row (lower action) = Inr q"
    by (simp add: dict_get_def q)
  have ne: "dict_values row \<noteq> []" using q by (auto simp add: dict_values_def)
  have mx: "max_values (dict_values row) = Inr (Max (set (dict_values row)))"
    by (rule max_values_Max [OF ne])
  show ?thesis
    by (simp add: update_q_value_def Let_def look cur mx dict_set_def update_conv' lazy_init_other)
qed

lemma dict_set_keys:
  "map_of row k = Some v \<Longrightarrow> map fst (dict_set row k v') = map fst row"
  by (auto simp add: dict_set_def update_keys dest: map_of_SomeD intro: rev_image_eqI)

text \<open>
  C8. With learning rate 0.1 and discount 0.95, as \<open>__init__\<close> sets them and as every
  update leaves them, \<open>_update_q_value\<close> on an action word the row knows replaces
  Q(state, action) by Q(state, action) + 0.1 * (reward + 0.95 * m - Q(state, action)),
  where m is the largest of the values of the same state; the other actions, the key order
  and the other states are untouched.  A state that is not in the table is first given the
  row approve 0, reject 0, abstain 0, and the update is applied to that row.
\<close>

theorem q_value_update_rule:
  assumes "row = (case map_of (q_table a) state of None \<Rightarrow> zero_q | Some r \<Rightarrow> r)"
    and "map_of row (lower action) = Some q"
    and "learning_rate a = 0.1" and "discount_factor a = 0.95"
  shows "(\<exists>a' row' m. update_q_value a state action reward = (None, a')
            \<and> max_values (dict_values row) = Inr m
            \<and> m = Max (set (dict_values row))
            \<and> map_of (q_table a') state = Some row'
            \<and> map_of row' = (map_of row)(lower action \<mapsto> q + 0.1 * (reward + 0.95 * m - q))
            \<and> map fst row' = map fst row
            \<and> (\<forall>s. s \<noteq> state \<longrightarrow> map_of (q_table a') s = map_of (q_table a) s)
            \<and> learning_rate a' = 0.1 \<and> discount_factor a' = 0.95)
         \<and> (map_of (q_table a) state = None
              \<longrightarrow> row = [(''approve'', 0), (''reject'', 0), (''abstain'', 0)])
         \<and> learning_rate init_agent = 0.1 \<and> discount_factor init_agent = 0.95"
proof (intro conjI impI)
  from update_q_value_step [OF assms(1,2), of reward] obtain a' row' where
    s: "update_q_value a state action reward = (None, a')"
       "map_of (q_table a') state = Some row'"
       "row' = dict_set row (lower action)
                 (q + learning_rate a * (reward + discount_factor a * Max (set (dict_values row)) - q))"
       "\<forall>s. s \<noteq> state \<longrightarrow> map_of (q_table a') s = map_of (q_table a) s"
       "learning_rate a' = learning_rate a"
       "discount_factor a' = discount_factor a"
    by blast
  have ne: "dict_values row \<noteq> []" using assms(2) by (auto simp add: dict_values_def)
  have mx: "max_values (dict_values row) = Inr (Max (set (dict_values row)))"
    by (rule max_values_Max [OF ne])
  have m: "map_of row' = (map_of row)(lower action \<mapsto>
              q + 0.1 * (reward + 0.95 * Max (set (dict_values row)) - q))"
    unfolding s(3) assms(3,4) by (simp add: dict_set_def update_conv')
  have k: "map fst row' = map fst row"
    unfolding s(3) by (rule dict_set_keys [OF assms(2)])
  from s(1,2,4,5,6) mx m k assms(3,4)
  show "\<exists>a' row' m. update_q_value a state action reward = (None, a')
            \<and> max_values (dict_values row) = Inr m
            \<and> m = Max (set (dict_values row))
            \<and> map_of (q_table a') state = Some row'
            \<and> map_of row' = (map_of row)(lower action \<mapsto> q + 0.1 * (reward + 0.95 * m - q))
            \<and> map fst row' = map fst row
            \<and> (\<forall>s. s \<noteq> state \<longrightarrow> map_of (q_table a') s = map_of (q_table a) s)
            \<and> learning_rate a' = 0.1 \<and> discount_factor a' = 0.95"
    by auto
next
  assume "map_of (q_table a) state = None"
  then show "row = [(''approve'', 0), (''reject'', 0), (''abstain'', 0)]"
    using assms(1) by (simp add: zero_q_def)
next
  show "learning_rate init_agent = 0.1" by (simp add: init_agent_def)
  show "discount_factor init_agent = 0.95" by (simp add: init_agent_def)
qed

theorem q_value_update_rule_witness:
  "zero_q = (case map_of (q_table init_agent) (''normal'', ''trade'', ''medium'') of
               None \<Rightarrow> zero_q | Some r \<Rightarrow> r)
   \<and> map_of zero_q (lower ''Approve'') = Some 0
   \<and> map_of (q_table init_agent) (''normal'', ''trade'', ''medium'') = None
   \<and> (\<exists>a' row'. update_q_value init_agent (''normal'', ''trade'', ''medium'') ''Approve'' 1 = (None, a')
          \<and> map_of (q_table a') (''normal'', ''trade'', ''medium'') = Some row'
          \<and> map_of row' ''approve'' = Some (1 / 10)
          \<and> map_of row' ''reject'' = Some 0
          \<and> map_of row' ''abstain'' = Some 0)"
proof -
  let ?st = "(''normal'', ''trade'', ''medium'')"
  have h0: "map_of (q_table init_agent) ?st = None" by (simp add: init_agent_def)
  have h1: "zero_q = (case map_of (q_table init_agent) ?st of None \<Rightarrow> zero_q | Some r \<Rightarrow> r)"
    by (simp add: h0)
  have low: "lower ''Approve'' = ''approve''" by (simp add: lower_def lower_char_def)
  have h2: "map_of zero_q (lower ''Approve'') = Some 0" by (simp add: low zero_q_def)
  have h3: "learning_rate init_agent = 0.1" and h4: "discount_factor init_agent = 0.95"
    by (simp_all add: init_agent_def)
  from q_value_update_rule [OF h1 h2 h3 h4, of 1] obtain a' row' m where
    s: "update_q_value init_agent ?st ''Approve'' 1 = (None, a')"
       "m = Max (set (dict_values zero_q))"
       "map_of (q_table a') ?st = Some row'"
       "map_of row' = (map_of zero_q)(lower ''Approve'' \<mapsto> 0 + 0.1 * (1 + 0.95 * m - 0))"
    by blast
  have m0: "m = 0" using s(2) by (simp add: zero_q_def dict_values_def)
  have "map_of row' ''approve'' = Some (1 / 10)"
    and "map_of row' ''reject'' = Some 0"
    and "map_of row' ''abstain'' = Some 0"
    unfolding s(4) m0 low by (simp_all add: zero_q_def)
  with s(1,3) h0 h1 h2 show ?thesis by blast
qed


section \<open>Prediction from the learned values\<close>

lemma argmax_first_snd:
  "snd (argmax_first rest best) = fold max (map snd rest) (snd best)"
  by (induction rest arbitrary: best) (auto simp add: max_def)

lemma argmax_first_mem:
  "argmax_first rest best \<in> set (best # rest)"
  by (induction rest arbitrary: best) auto

lemma sum_list_le_length_times:
  fixes xs :: "real list"
  assumes "\<forall>x \<in> set xs. x \<le> m"
  shows "sum_list xs \<le> real (length xs) * m"
  using assms by (induction xs) (auto simp add: algebra_simps)

lemma exploit_confidence:
  assumes d: "distinct (map fst row)" and ne: "row \<noteq> []"
  shows "\<exists>k m. max_key row = Inr k \<and> dict_get row k = Inr m
           \<and> max_values (dict_values row) = Inr m
           \<and> sum_list (dict_values row) / real (length row) \<le> m"
proof -
  from ne obtain kv rest where row: "row = kv # rest" by (cases row) auto
  let ?b = "argmax_first rest kv"
  have k: "max_key row = Inr (fst ?b)" by (simp add: row max_key_def)
  have "?b \<in> set row" using argmax_first_mem [of rest kv] by (simp add: row)
  then have "(fst ?b, snd ?b) \<in> set row" by simp
  then have "map_of row (fst ?b) = Some (snd ?b)" using d by (simp add: map_of_is_SomeI del: prod.collapse)
  then have g: "dict_get row (fst ?b) = Inr (snd ?b)" by (simp add: dict_get_def)
  have mv: "max_values (dict_values row) = Inr (snd ?b)"
    by (simp add: row max_values_def dict_values_def argmax_first_snd)
  have "snd ?b = Max (set (dict_values row))"
    using mv max_values_Max [of "dict_values row"] ne by (simp add: dict_values_def)
  then have "\<forall>x \<in> set (dict_values row). x \<le> snd ?b" by simp
  from sum_list_le_length_times [OF this]
  have "sum_list (dict_values row) \<le> real (length row) * snd ?b" by (simp add: dict_values_def)
  moreover have "0 < real (length row)" using ne by simp
  ultimately have "sum_list (dict_values row) / real (length row) \<le> snd ?b"
    by (simp add: pos_divide_le_eq mult.commute)
  with k g mv show ?thesis by blast
qed

lemma predict_exploit:
  assumes st: "state = (market_condition, ptype, risk_level)"
    and row: "row = (case map_of (q_table a) state of None \<Rightarrow> zero_q | Some r \<Rightarrow> r)"
    and d: "distinct (map fst row)" and ne: "row \<noteq> []"
    and nr: "\<not> rnd < exploration_rate a"
  shows "\<exists>k m. predict_vote a ptype market_condition risk_level rnd pick
                 = (Inr (k, min 1 ((m - sum_list (dict_values row) / real (length row) + 1) / 2)),
                    a\<lparr>q_table := lazy_init (q_table a) state\<rparr>)
           \<and> max_key row = Inr k
           \<and> map_of row k = Some m
           \<and> max_values (dict_values row) = Inr m
           \<and> sum_list (dict_values row) / real (length row) \<le> m"
proof -
  from exploit_confidence [OF d ne] obtain k m where
    e: "max_key row = Inr k" "dict_get row k = Inr m"
       "max_values (dict_values row) = Inr m"
       "sum_list (dict_values row) / real (length row) \<le> m"
    by blast
  have look: "dict_get (lazy_init (q_table a) (market_condition, ptype, risk_level))
                (market_condition, ptype, risk_level) = Inr row"
    using row by (simp add: dict_get_def lazy_init_lookup st)
  have p: "predict_vote a ptype market_condition risk_level rnd pick
             = (Inr (k, min 1 ((m - sum_list (dict_values row) / real (length row) + 1) / 2)),
                a\<lparr>q_table := lazy_init (q_table a) state\<rparr>)"
    unfolding predict_vote_def Let_def st
    using nr by (simp only: if_False look e(1,2) sum.case)
  have "map_of row k = Some m"
    using e(2) by (simp add: dict_get_def split: option.splits)
  with p e show ?thesis by blast
qed

lemma lower_approve: "lower ''approve'' = ''approve''"
  by (simp add: lower_def lower_char_def)

lemma approve_row_set:
  "dict_set (approve_row q) ''approve'' q' = approve_row q'"
  by (simp add: approve_row_def dict_set_def)

lemma approve_row_Max:
  "0 \<le> q \<Longrightarrow> Max (set (dict_values (approve_row q))) = q"
  by (simp add: approve_row_def dict_values_def)

lemma approve_step:
  assumes "map_of (q_table a) state = Some (approve_row q)" and "0 \<le> q"
    and "learning_rate a = 0.1" and "discount_factor a = 0.95"
  shows "\<exists>a'. update_q_value a state ''approve'' 1 = (None, a')
           \<and> map_of (q_table a') state = Some (approve_row (20 - (20 - q) * 0.995))
           \<and> learning_rate a' = 0.1 \<and> discount_factor a' = 0.95
           \<and> exploration_rate a' = exploration_rate a"
proof -
  have row: "approve_row q = (case map_of (q_table a) state of None \<Rightarrow> zero_q | Some r \<Rightarrow> r)"
    using assms(1) by simp
  have cur: "map_of (approve_row q) (lower ''approve'') = Some q"
    by (simp add: lower_approve approve_row_def)
  from update_q_value_step [OF row cur, of 1] obtain a' row' where
    s: "update_q_value a state ''approve'' 1 = (None, a')"
       "map_of (q_table a') state = Some row'"
       "row' = dict_set (approve_row q) (lower ''approve'')
                 (q + learning_rate a * (1 + discount_factor a * Max (set (dict_values (approve_row q))) - q))"
       "learning_rate a' = learning_rate a"
       "discount_factor a' = discount_factor a"
       "exploration_rate a' = exploration_rate a"
    by blast
  have ar: "q + 0.1 * (1 + 0.95 * q - q) = 20 - (20 - q) * (0.995 :: real)"
    by (simp add: field_simps)
  have "row' = approve_row (20 - (20 - q) * 0.995)"
    unfolding s(3) lower_approve approve_row_Max [OF assms(2)] assms(3,4) approve_row_set ar ..
  with s(1,2,4,5,6) assms(3,4) show ?thesis by auto
qed

lemma approve_repeat:
  assumes "map_of (q_table a) state = Some (approve_row q)" and "0 \<le> q" and "q \<le> 20"
    and "learning_rate a = 0.1" and "discount_factor a = 0.95"
  shows "\<exists>a'. repeat_update n a state ''approve'' 1 = (None, a')
           \<and> map_of (q_table a') state = Some (approve_row (20 - (20 - q) * 0.995 ^ n))
           \<and> learning_rate a' = 0.1 \<and> discount_factor a' = 0.95
           \<and> exploration_rate a' = exploration_rate a"
  using assms
proof (induction n arbitrary: a q)
  case 0
  then show ?case by simp
next
  case (Suc n)
  from approve_step [OF Suc.prems(1,2,4,5)] obtain a1 where
    s: "update_q_value a state ''approve'' 1 = (None, a1)"
       "map_of (q_table a1) state = Some (approve_row (20 - (20 - q) * 0.995))"
       "learning_rate a1 = 0.1" "discount_factor a1 = 0.95"
       "exploration_rate a1 = exploration_rate a"
    by blast
  have b1: "0 \<le> 20 - (20 - q) * 0.995" using Suc.prems(2,3) by simp
  have b2: "20 - (20 - q) * 0.995 \<le> (20 :: real)" using Suc.prems(3) by simp
  from Suc.IH [OF s(2) b1 b2 s(3,4)] obtain a' where
    r: "repeat_update n a1 state ''approve'' 1 = (None, a')"
       "map_of (q_table a') state
          = Some (approve_row (20 - (20 - (20 - (20 - q) * 0.995)) * 0.995 ^ n))"
       "learning_rate a' = 0.1" "discount_factor a' = 0.95"
       "exploration_rate a' = exploration_rate a1"
    by blast
  have rep: "repeat_update (Suc n) a state ''approve'' 1 = (None, a')"
    using s(1) r(1) by simp
  have e: "20 - (20 - (20 - (20 - q) * 0.995)) * 0.995 ^ n = 20 - (20 - q) * 0.995 ^ Suc n"
    by (simp add: algebra_simps)
  have t: "map_of (q_table a') state = Some (approve_row (20 - (20 - q) * 0.995 ^ Suc n))"
    using r(2) unfolding e .
  have x: "exploration_rate a' = exploration_rate a" using r(5) s(5) by simp
  from rep t r(3,4) x show ?case by blast
qed

lemma approve_first:
  assumes "map_of (q_table a) state = None \<or> map_of (q_table a) state = Some zero_q"
    and "learning_rate a = 0.1" and "discount_factor a = 0.95"
  shows "\<exists>a'. update_q_value a state ''approve'' 1 = (None, a')
           \<and> map_of (q_table a') state = Some (approve_row 0.1)
           \<and> learning_rate a' = 0.1 \<and> discount_factor a' = 0.95
           \<and> exploration_rate a' = exploration_rate a"
proof -
  have z: "zero_q = approve_row 0" by (simp add: zero_q_def approve_row_def)
  have row: "approve_row 0 = (case map_of (q_table a) state of None \<Rightarrow> zero_q | Some r \<Rightarrow> r)"
    using assms(1) z by auto
  have cur: "map_of (approve_row 0) (lower ''approve'') = Some 0"
    by (simp add: lower_approve approve_row_def)
  from update_q_value_step [OF row cur, of 1] obtain a' row' where
    s: "update_q_value a state ''approve'' 1 = (None, a')"
       "map_of (q_table a') state = Some row'"
       "row' = dict_set (approve_row 0) (lower ''approve'')
                 (0 + learning_rate a * (1 + discount_factor a * Max (set (dict_values (approve_row 0))) - 0))"
       "learning_rate a' = learning_rate a"
       "discount_factor a' = discount_factor a"
       "exploration_rate a' = exploration_rate a"
    by blast
  have ar: "0 + 0.1 * (1 + 0.95 * 0 - 0) = (0.1 :: real)" by simp
  have "row' = approve_row 0.1"
    unfolding s(3) lower_approve approve_row_Max [OF order_refl] assms(2,3) approve_row_set ar ..
  with s(1,2,4,5,6) assms(2,3) show ?thesis by auto
qed

lemma approve_from_zero:
  assumes "map_of (q_table a) state = None \<or> map_of (q_table a) state = Some zero_q"
    and "learning_rate a = 0.1" and "discount_factor a = 0.95"
  shows "\<exists>a'. repeat_update (Suc n) a state ''approve'' 1 = (None, a')
           \<and> map_of (q_table a') state = Some (approve_row (20 - 20 * 0.995 ^ Suc n))
           \<and> exploration_rate a' = exploration_rate a"
proof -
  from approve_first [OF assms] obtain a1 where
    s: "update_q_value a state ''approve'' 1 = (None, a1)"
       "map_of (q_table a1) state = Some (approve_row 0.1)"
       "learning_rate a1 = 0.1" "discount_factor a1 = 0.95"
       "exploration_rate a1 = exploration_rate a"
    by blast
  have b1: "(0 :: real) \<le> 0.1" and b2: "(0.1 :: real) \<le> 20" by simp_all
  from approve_repeat [OF s(2) b1 b2 s(3,4), of n] obtain a' where
    r: "repeat_update n a1 state ''approve'' 1 = (None, a')"
       "map_of (q_table a') state = Some (approve_row (20 - (20 - 0.1) * 0.995 ^ n))"
       "exploration_rate a' = exploration_rate a1"
    by blast
  have rep: "repeat_update (Suc n) a state ''approve'' 1 = (None, a')"
    using s(1) r(1) by simp
  have e: "20 - (20 - 0.1) * 0.995 ^ n = 20 - 20 * (0.995 :: real) ^ Suc n"
    by (simp add: algebra_simps)
  have t: "map_of (q_table a') state = Some (approve_row (20 - 20 * 0.995 ^ Suc n))"
    using r(2) unfolding e .
  have x: "exploration_rate a' = exploration_rate a" using r(3) s(5) by simp
  from rep t x show ?thesis by blast
qed

lemma approve_row_predict:
  assumes "map_of (q_table a) (market_condition, ptype, risk_level) = Some (approve_row q)"
    and "0 \<le> q" and "\<not> rnd < exploration_rate a"
  shows "\<exists>a'. predict_vote a ptype market_condition risk_level rnd pick
                 = (Inr (''approve'', min 1 ((q - q / 3 + 1) / 2)), a')"
proof -
  let ?st = "(market_condition, ptype, risk_level)"
  have row: "approve_row q = (case map_of (q_table a) ?st of None \<Rightarrow> zero_q | Some r \<Rightarrow> r)"
    using assms(1) by simp
  have d: "distinct (map fst (approve_row q))" and ne: "approve_row q \<noteq> []"
    by (simp_all add: approve_row_def)
  from predict_exploit [OF refl row d ne assms(3), of pick] obtain k m where
    p: "predict_vote a ptype market_condition risk_level rnd pick
          = (Inr (k, min 1 ((m - sum_list (dict_values (approve_row q))
                                   / real (length (approve_row q)) + 1) / 2)),
             a\<lparr>q_table := lazy_init (q_table a) ?st\<rparr>)"
    and k: "max_key (approve_row q) = Inr k"
    and m: "map_of (approve_row q) k = Some m"
    by blast
  have k': "k = ''approve''" using k assms(2) by (simp add: max_key_def approve_row_def)
  have m': "m = q" using m unfolding k' by (simp add: approve_row_def)
  have avg: "sum_list (dict_values (approve_row q)) / real (length (approve_row q)) = q / 3"
    by (simp add: approve_row_def dict_values_def)
  show ?thesis using p unfolding k' m' avg by blast
qed

lemma confidence_saturates:
  fixes q :: real
  assumes "4 \<le> q"
  shows "min 1 ((q - q / 3 + 1) / 2) = 1"
proof -
  have "1 \<le> (q - q / 3 + 1) / 2" using assms by (simp add: field_simps)
  then show ?thesis by simp
qed

text \<open>
  C9. From a state that is absent from the table or holds the zero row, fifty updates with
  action approve and reward 1 succeed and leave Q(state, approve) = 20 - 20 * 0.995^50 with
  the other two values 0; predicting on that state with the exploration rate set to 0, for
  any random draw in [0, 1), returns approve with confidence greater than 0.5 (it is 1).
\<close>

theorem fifty_updates_predict_approve:
  assumes "map_of (q_table a) (market_condition, ptype, risk_level) = None
           \<or> map_of (q_table a) (market_condition, ptype, risk_level) = Some zero_q"
    and "learning_rate a = 0.1" and "discount_factor a = 0.95"
    and "0 \<le> rnd"
  shows "\<exists>a50 conf a'.
           repeat_update 50 a (market_condition, ptype, risk_level) ''approve'' 1 = (None, a50)
           \<and> map_of (q_table a50) (market_condition, ptype, risk_level)
               = Some [(''approve'', 20 - 20 * 0.995 ^ 50), (''reject'', 0), (''abstain'', 0)]
           \<and> predict_vote (a50\<lparr>exploration_rate := 0\<rparr>) ptype market_condition risk_level rnd pick
               = (Inr (''approve'', conf), a')
           \<and> conf > 0.5 \<and> conf = 1"
proof -
  let ?st = "(market_condition, ptype, risk_level)"
  let ?q = "20 - 20 * (0.995 :: real) ^ 50"
  have n: "(50 :: nat) = Suc 49" by simp
  from approve_from_zero [OF assms(1,2,3), of 49] obtain a50 where
    r: "repeat_update 50 a ?st ''approve'' 1 = (None, a50)"
       "map_of (q_table a50) ?st = Some (approve_row ?q)"
    unfolding n [symmetric] by blast
  have pb: "(0.995 :: real) ^ 50 \<le> 0.8" by (simp add: power_divide)
  have q4: "4 \<le> ?q" using pb by simp
  have q0: "0 \<le> ?q" using q4 by simp
  let ?a = "a50\<lparr>exploration_rate := 0\<rparr>"
  have t: "map_of (q_table ?a) ?st = Some (approve_row ?q)" using r(2) by simp
  have nr: "\<not> rnd < exploration_rate ?a" using assms(4) by simp
  from approve_row_predict [OF t q0 nr, of pick] obtain a' where
    p: "predict_vote ?a ptype market_condition risk_level rnd pick
          = (Inr (''approve'', min 1 ((?q - ?q / 3 + 1) / 2)), a')"
    by blast
  have c1: "min 1 ((?q - ?q / 3 + 1) / 2) = 1" by (rule confidence_saturates [OF q4])
  have c2: "min 1 ((?q - ?q / 3 + 1) / 2) > 0.5" unfolding c1 by simp
  have row: "map_of (q_table a50) ?st
               = Some [(''approve'', ?q), (''reject'', 0), (''abstain'', 0)]"
    using r(2) by (simp add: approve_row_def)
  from r(1) row p c1 c2 show ?thesis by blast
qed

theorem fifty_updates_predict_approve_witness:
  "(map_of (q_table init_agent) (''normal'', ''trade'', ''medium'') = None
      \<or> map_of (q_table init_agent) (''normal'', ''trade'', ''medium'') = Some zero_q)
   \<and> learning_rate init_agent = 0.1 \<and> discount_factor init_agent = 0.95
   \<and> (0 :: real) \<le> 0.3
   \<and> (\<exists>a50 conf a'.
         repeat_update 50 init_agent (''normal'', ''trade'', ''medium'') ''approve'' 1 = (None, a50)
         \<and> predict_vote (a50\<lparr>exploration_rate := 0\<rparr>) ''trade'' ''normal'' ''medium'' 0.3 0
             = (Inr (''approve'', conf), a')
         \<and> conf > 0.5)"
proof -
  have h1: "map_of (q_table init_agent) (''normal'', ''trade'', ''medium'') = None
      \<or> map_of (q_table init_agent) (''normal'', ''trade'', ''medium'') = Some zero_q"
    by (simp add: init_agent_def)
  have h2: "learning_rate init_agent = 0.1" and h3: "discount_factor init_agent = 0.95"
    by (simp_all add: init_agent_def)
  have h4: "(0 :: real) \<le> 0.3" by simp
  from fifty_updates_predict_approve [OF h1 h2 h3 h4, of 0]
  have "\<exists>a50 conf a'.
         repeat_update 50 init_agent (''normal'', ''trade'', ''medium'') ''approve'' 1 = (None, a50)
         \<and> predict_vote (a50\<lparr>exploration_rate := 0\<rparr>) ''trade'' ''normal'' ''medium'' 0.3 0
             = (Inr (''approve'', conf), a')
         \<and> conf > 0.5"
    by blast
  with h1 h2 h3 h4 show ?thesis by blast
qed



end
